theory Spec2Isabelle
  imports Main "HOL-Library.Word" "HOL-Library.Sublist"
begin

section \<open>Data model\<close>

text \<open>
  The update reconciliation of the control plane machine set controller
  (package \<open>controlplanemachineset\<close>).  The engine reads a
  \<open>map[int32][]MachineInfo\<close> and talks to a \<open>MachineProvider\<close>; everything it
  does beyond returning is made explicit here: the provider calls it makes, the lines it
  logs, the conditions it sets and the error it returns.
\<close>

type_synonym int32 = "32 word"

text \<open>
  Modelled from the spec: the types \<open>MachineInfo\<close> and \<open>ObjectRef\<close> are declared in
  package \<open>machineproviders\<close>, which is not part of the sources at hand.  The spec gives
  \<open>MachineInfo = {index, ref, ready, needsUpdate}\<close> with a reference that is always
  present and carries a name, a namespace and an optional deletion timestamp; the field
  names are the ones the engine reads (\<open>m.MachineRef.ObjectMeta.DeletionTimestamp\<close>).
\<close>

record ObjectMeta =
  Name :: string
  Namespace :: string
  DeletionTimestamp :: "int option"

record ObjectRef =
  ObjectMeta :: ObjectMeta

record MachineInfo =
  Index :: int32
  MachineRef :: ObjectRef
  Ready :: bool
  NeedsUpdate :: bool

text \<open>\<open>metav1.Condition\<close>, without its time stamps and observed generation.\<close>

record Condition =
  Type :: string
  Status :: string
  Reason :: string
  Message :: string

text \<open>
  The fields of \<open>machinev1.ControlPlaneMachineSet\<close> the engine touches:
  \<open>Spec.Strategy.Type\<close> (a string type), \<open>Spec.Replicas\<close> (an \<open>*int32\<close>, \<open>None\<close> is
  the nil pointer) and \<open>Status.Conditions\<close>.
\<close>

record ControlPlaneMachineSet =
  StrategyType :: string
  Replicas :: "int32 option"
  Conditions :: "Condition list"

record ControlPlaneMachineSetReconciler =
  ReconcilerNamespace :: string

text \<open>
  A Go map \<open>map[int32][]MachineInfo\<close> as an association list: the map binds a key to
  the value of its first pair, its key set is the set of first components.  Reading a
  key that is not bound yields the zero value, the nil slice.
\<close>

type_synonym indexedMachineInfos = "(int32 \<times> MachineInfo list) list"

definition mapKeys :: "indexedMachineInfos \<Rightarrow> int32 list" where
  "mapKeys m = remdups (map fst m)"

definition lookup :: "indexedMachineInfos \<Rightarrow> int32 \<Rightarrow> MachineInfo list" where
  "lookup m k = (case map_of m k of None \<Rightarrow> [] | Some ms \<Rightarrow> ms)"

section \<open>Collaborators: provider, logger, status conditions\<close>

datatype call = CreateMachine int32 | DeleteMachine ObjectRef

text \<open>
  The machine provider answers a call with \<open>None\<close> (success) or with the text of its
  error.  The theorems below hold for every such provider.
\<close>

type_synonym machineProvider = "call \<Rightarrow> string option"

datatype error =
    ErrRecreateStrategyNotSupported
  | ErrUnknownStrategy string
  | ErrCreatingMachine nat string
  | ErrDeletingMachine string string string

datatype logValue = IntValue int | StringValue string

type_synonym logger = "(string \<times> logValue) list"

definition withValues :: "logger \<Rightarrow> (string \<times> logValue) list \<Rightarrow> logger" where
  "withValues l kvs = l @ kvs"

datatype logEntry = LogInfo nat logger string | LogError error logger string

fun entryValues :: "logEntry \<Rightarrow> logger" where
  "entryValues (LogInfo v l msg) = l"
| "entryValues (LogError e l msg) = l"

fun entryMessage :: "logEntry \<Rightarrow> string" where
  "entryMessage (LogInfo v l msg) = msg"
| "entryMessage (LogError e l msg) = msg"

text \<open>
  What one call of a reconcile function did and returned: the provider calls in order,
  the log lines in order, and the returned error (\<open>None\<close> is nil).  The returned
  \<open>ctrl.Result\<close> is the empty struct on every path and is left out.
\<close>

record outcome =
  calls :: "call list"
  logs :: "logEntry list"
  err :: "error option"

text \<open>
  \<open>meta.SetStatusCondition\<close>: the first condition of the same type is overwritten in
  place, otherwise the new condition is appended.
\<close>

fun SetStatusCondition :: "Condition list \<Rightarrow> Condition \<Rightarrow> Condition list" where
  "SetStatusCondition [] new = [new]"
| "SetStatusCondition (c # cs) new =
     (if Type c = Type new
      then c\<lparr>Status := Status new, Reason := Reason new, Message := Message new\<rparr> # cs
      else c # SetStatusCondition cs new)"

section \<open>Constants\<close>

definition createdReplacement :: string where
  "createdReplacement = ''Created replacement machine''"

definition errorCreatingMachine :: string where
  "errorCreatingMachine = ''Error creating machine''"

definition errorDeletingMachine :: string where
  "errorDeletingMachine = ''Error deleting machine''"

definition invalidStrategyMessage :: string where
  "invalidStrategyMessage = ''invalid value for spec.strategy.type''"

definition noUpdatesRequired :: string where
  "noUpdatesRequired = ''No updates required''"

definition removingOldMachine :: string where
  "removingOldMachine = ''Removing old machine''"

definition waitingForReady :: string where
  "waitingForReady = ''Waiting for machine to become ready''"

definition waitingForRemoved :: string where
  "waitingForRemoved = ''Waiting for machine to be removed''"

definition waitingForReplacement :: string where
  "waitingForReplacement = ''Waiting for replacement machine to become ready''"

definition RollingUpdate :: string where
  "RollingUpdate = ''RollingUpdate''"

definition OnDelete :: string where
  "OnDelete = ''OnDelete''"

definition Recreate :: string where
  "Recreate = ''Recreate''"

text \<open>
  Modelled from the spec: \<open>conditionDegraded\<close> and \<open>reasonInvalidStrategy\<close> are
  declared in a file of the package that is not at hand; the spec gives the condition
  type \<open>Degraded\<close>, the reason \<open>InvalidStrategy\<close>, and the status \<open>True\<close>
  (\<open>metav1.ConditionTrue\<close>).
\<close>

definition conditionDegraded :: string where
  "conditionDegraded = ''Degraded''"

definition reasonInvalidStrategy :: string where
  "reasonInvalidStrategy = ''InvalidStrategy''"

definition ConditionTrue :: string where
  "ConditionTrue = ''True''"

text \<open>The texts of the two sentinel errors, as \<open>%s\<close> prints them.\<close>

definition errRecreateStrategyNotSupportedText :: string where
  "errRecreateStrategyNotSupportedText =
     ''update strategy '' @ [CHR 0x22] @ Recreate @ [CHR 0x22] @ '' is not supported''"

definition errUnknownStrategyText :: string where
  "errUnknownStrategyText = ''unknown update strategy''"

section \<open>Classifiers and helpers\<close>

definition isDeletedMachine :: "MachineInfo \<Rightarrow> bool" where
  "isDeletedMachine m = (DeletionTimestamp (ObjectMeta (MachineRef m)) \<noteq> None)"

definition needUpdateMachines :: "MachineInfo list \<Rightarrow> MachineInfo list" where
  "needUpdateMachines machinesInfo = filter (\<lambda>m. NeedsUpdate m) machinesInfo"

definition pendingMachines :: "MachineInfo list \<Rightarrow> MachineInfo list" where
  "pendingMachines machinesInfo = filter (\<lambda>m. \<not> Ready m \<and> \<not> NeedsUpdate m) machinesInfo"

definition updatedMachines :: "MachineInfo list \<Rightarrow> MachineInfo list" where
  "updatedMachines machinesInfo = filter (\<lambda>m. Ready m \<and> \<not> NeedsUpdate m) machinesInfo"

definition readyMachines :: "MachineInfo list \<Rightarrow> MachineInfo list" where
  "readyMachines machinesInfo = filter (\<lambda>m. Ready m) machinesInfo"

definition hasAny :: "MachineInfo list \<Rightarrow> bool" where
  "hasAny machinesInfo = (length machinesInfo > 0)"

definition empty :: "MachineInfo list \<Rightarrow> bool" where
  "empty machinesInfo = (length machinesInfo = 0)"

text \<open>
  \<open>sortMachineInfos\<close>: the keys are collected as \<open>int\<close> and sorted, and then the loop
  \<open>for i := range keys\<close> runs over the positions \<open>0 .. len(keys) - 1\<close> and reads the
  map at \<open>int32(i)\<close>, the position, not at \<open>keys[i]\<close>.
\<close>

definition sortMachineInfos :: "indexedMachineInfos \<Rightarrow> MachineInfo list list" where
  "sortMachineInfos indexed =
     (let keys = sort (map sint (mapKeys indexed))
      in map (\<lambda>i. lookup indexed (of_nat i)) [0..<length keys])"

text \<open>
  \<open>deviseExistingSurge\<close> dereferences \<open>cpms.Spec.Replicas\<close>: on the nil pointer it
  panics, which is the value \<open>None\<close>.  Go's \<open>int\<close> has 64 bits; a sum of slice lengths
  stays far below that, so \<open>int\<close> is unbounded here.
\<close>

definition deviseExistingSurge :: "ControlPlaneMachineSet \<Rightarrow> MachineInfo list list \<Rightarrow> int option" where
  "deviseExistingSurge cpms mis =
     (case Replicas cpms of
        None \<Rightarrow> None
      | Some replicas \<Rightarrow>
          let desiredReplicas = sint replicas;
              currentReplicas = foldl (\<lambda>acc mi. acc + int (length mi)) 0 mis
          in Some (currentReplicas - desiredReplicas))"

section \<open>Provider actions\<close>

definition deleteMachine ::
  "logger \<Rightarrow> machineProvider \<Rightarrow> MachineInfo \<Rightarrow> string \<Rightarrow> nat \<Rightarrow> outcome" where
  "deleteMachine logger machineProvider outdatedMachine namespace idx =
     (case machineProvider (DeleteMachine (MachineRef outdatedMachine)) of
        Some e \<Rightarrow>
          let werr = ErrDeletingMachine namespace (Name (ObjectMeta (MachineRef outdatedMachine))) e
          in \<lparr>calls = [DeleteMachine (MachineRef outdatedMachine)],
              logs = [LogError werr logger errorDeletingMachine],
              err = Some werr\<rparr>
      | None \<Rightarrow>
          \<lparr>calls = [DeleteMachine (MachineRef outdatedMachine)],
           logs = [LogInfo 2 logger removingOldMachine],
           err = None\<rparr>)"

text \<open>
  \<open>createMachine\<close> takes the surge counter by pointer; the model returns its new value
  beside the outcome.
\<close>

definition createMachine ::
  "logger \<Rightarrow> machineProvider \<Rightarrow> nat \<Rightarrow> int \<Rightarrow> int \<Rightarrow> outcome \<times> int" where
  "createMachine logger machineProvider idx maxSurge surgeCount =
     (if surgeCount < maxSurge then
        (case machineProvider (CreateMachine (of_nat idx)) of
           Some e \<Rightarrow>
             let werr = ErrCreatingMachine idx e
             in (\<lparr>calls = [CreateMachine (of_nat idx)],
                  logs = [LogError werr logger errorCreatingMachine],
                  err = Some werr\<rparr>, surgeCount)
         | None \<Rightarrow>
             (\<lparr>calls = [CreateMachine (of_nat idx)],
               logs = [LogInfo 2 logger createdReplacement],
               err = None\<rparr>, surgeCount + 1))
      else (\<lparr>calls = [], logs = [], err = None\<rparr>, surgeCount))"

section \<open>The rolling update\<close>

text \<open>
  The three \<open>for idx, machines := range sortedIndexedMs\<close> loops, each from position
  \<open>idx\<close> on; \<open>None\<close> means the loop ran to its end without returning.  The reads
  \<open>machinesPending[0]\<close> and \<open>outdatedMs[0]\<close> are \<open>hd\<close>; each stands behind its
  \<open>hasAny\<close> test, so the slice is never empty there.
\<close>

fun emptyIndexLoop ::
  "ControlPlaneMachineSetReconciler \<Rightarrow> logger \<Rightarrow> machineProvider \<Rightarrow> int \<Rightarrow> int \<Rightarrow> nat \<Rightarrow>
   MachineInfo list list \<Rightarrow> outcome option" where
  "emptyIndexLoop r logger machineProvider maxSurge surgeCount idx [] = None"
| "emptyIndexLoop r logger machineProvider maxSurge surgeCount idx (machines # rest) =
     (if empty machines then
        let logger = withValues logger
              [(''index'', IntValue (int idx)),
               (''namespace'', StringValue (ReconcilerNamespace r)),
               (''name'', StringValue ''<Unknown>'')]
        in Some (fst (createMachine logger machineProvider idx maxSurge surgeCount))
      else emptyIndexLoop r logger machineProvider maxSurge surgeCount (Suc idx) rest)"

fun pendingIndexLoop ::
  "ControlPlaneMachineSetReconciler \<Rightarrow> logger \<Rightarrow> nat \<Rightarrow> MachineInfo list list \<Rightarrow> outcome option" where
  "pendingIndexLoop r logger idx [] = None"
| "pendingIndexLoop r logger idx (machines # rest) =
     (let machinesPending = pendingMachines machines
      in if empty (readyMachines machines) \<and> hasAny machinesPending then
           let replacementMachine = hd machinesPending;
               logger = withValues logger
                 [(''index'', IntValue (int idx)),
                  (''namespace'', StringValue (ReconcilerNamespace r)),
                  (''name'', StringValue (Name (ObjectMeta (MachineRef replacementMachine))))]
           in Some \<lparr>calls = [], logs = [LogInfo 2 logger waitingForReady], err = None\<rparr>
         else pendingIndexLoop r logger (Suc idx) rest)"

fun needUpdateLoop ::
  "ControlPlaneMachineSetReconciler \<Rightarrow> logger \<Rightarrow> machineProvider \<Rightarrow> int \<Rightarrow> int \<Rightarrow> nat \<Rightarrow>
   MachineInfo list list \<Rightarrow> outcome option" where
  "needUpdateLoop r logger machineProvider maxSurge surgeCount idx [] = None"
| "needUpdateLoop r logger machineProvider maxSurge surgeCount idx (machines # rest) =
     (let outdatedMs = needUpdateMachines machines
      in if hasAny outdatedMs then
           let outdatedMachine = hd outdatedMs;
               logger = withValues logger
                 [(''index'', IntValue (int idx)),
                  (''namespace'', StringValue (ReconcilerNamespace r)),
                  (''name'', StringValue (Name (ObjectMeta (MachineRef outdatedMachine))))]
           in if hasAny (updatedMachines machines) then
                (if \<not> isDeletedMachine outdatedMachine then
                   Some (deleteMachine logger machineProvider outdatedMachine
                           (ReconcilerNamespace r) idx)
                 else
                   Some \<lparr>calls = [], logs = [LogInfo 2 logger waitingForRemoved], err = None\<rparr>)
              else
                let machinesPending = pendingMachines machines
                in if hasAny machinesPending then
                     let replacementMachine = hd machinesPending
                     in Some \<lparr>calls = [],
                              logs = [LogInfo 2
                                (withValues logger
                                   [(''replacementName'',
                                     StringValue (Name (ObjectMeta (MachineRef replacementMachine))))])
                                waitingForReplacement],
                              err = None\<rparr>
                   else
                     Some (fst (createMachine logger machineProvider idx maxSurge surgeCount))
         else needUpdateLoop r logger machineProvider maxSurge surgeCount (Suc idx) rest)"

text \<open>
  \<open>reconcileMachineRollingUpdate\<close>.  The result \<open>None\<close> is the panic of
  \<open>deviseExistingSurge\<close> on unset replicas, which happens before any loop runs.
\<close>

definition reconcileMachineRollingUpdate ::
  "ControlPlaneMachineSetReconciler \<Rightarrow> logger \<Rightarrow> ControlPlaneMachineSet \<Rightarrow> machineProvider \<Rightarrow>
   indexedMachineInfos \<Rightarrow> outcome option" where
  "reconcileMachineRollingUpdate r logger cpms machineProvider indexed =
     (let logger = withValues logger [(''updateStrategy'', StringValue (StrategyType cpms))];
          sortedIndexedMs = sortMachineInfos indexed;
          maxSurge = 1
      in case deviseExistingSurge cpms sortedIndexedMs of
           None \<Rightarrow> None
         | Some surgeCount \<Rightarrow>
             (case emptyIndexLoop r logger machineProvider maxSurge surgeCount 0 sortedIndexedMs of
                Some res \<Rightarrow> Some res
              | None \<Rightarrow>
                 (case pendingIndexLoop r logger 0 sortedIndexedMs of
                    Some res \<Rightarrow> Some res
                  | None \<Rightarrow>
                     (case needUpdateLoop r logger machineProvider maxSurge surgeCount 0 sortedIndexedMs of
                        Some res \<Rightarrow> Some res
                      | None \<Rightarrow>
                          Some \<lparr>calls = [], logs = [LogInfo 4 logger noUpdatesRequired], err = None\<rparr>))))"

definition reconcileMachineOnDeleteUpdate ::
  "ControlPlaneMachineSetReconciler \<Rightarrow> logger \<Rightarrow> ControlPlaneMachineSet \<Rightarrow> machineProvider \<Rightarrow>
   indexedMachineInfos \<Rightarrow> outcome option" where
  "reconcileMachineOnDeleteUpdate r logger cpms machineProvider indexed =
     Some \<lparr>calls = [], logs = [], err = None\<rparr>"

section \<open>The strategy dispatcher\<close>

text \<open>
  \<open>reconcileMachineUpdates\<close> returns the machine set as it leaves it (the conditions
  are set through the pointer) beside the outcome.
\<close>

definition reconcileMachineUpdates ::
  "ControlPlaneMachineSetReconciler \<Rightarrow> logger \<Rightarrow> ControlPlaneMachineSet \<Rightarrow> machineProvider \<Rightarrow>
   indexedMachineInfos \<Rightarrow> (ControlPlaneMachineSet \<times> outcome) option" where
  "reconcileMachineUpdates r logger cpms machineProvider machineInfos =
     (if StrategyType cpms = RollingUpdate then
        map_option (Pair cpms) (reconcileMachineRollingUpdate r logger cpms machineProvider machineInfos)
      else if StrategyType cpms = OnDelete then
        map_option (Pair cpms) (reconcileMachineOnDeleteUpdate r logger cpms machineProvider machineInfos)
      else if StrategyType cpms = Recreate then
        Some (cpms\<lparr>Conditions := SetStatusCondition (Conditions cpms)
                      \<lparr>Type = conditionDegraded, Status = ConditionTrue,
                       Reason = reasonInvalidStrategy,
                       Message = invalidStrategyMessage @ '': '' @ errRecreateStrategyNotSupportedText\<rparr>\<rparr>,
              \<lparr>calls = [],
               logs = [LogError ErrRecreateStrategyNotSupported logger invalidStrategyMessage],
               err = None\<rparr>)
      else
        Some (cpms\<lparr>Conditions := SetStatusCondition (Conditions cpms)
                      \<lparr>Type = conditionDegraded, Status = ConditionTrue,
                       Reason = reasonInvalidStrategy,
                       Message = invalidStrategyMessage @ '': '' @ errUnknownStrategyText @ '': ''
                                 @ StrategyType cpms\<rparr>\<rparr>,
              \<lparr>calls = [],
               logs = [LogError (ErrUnknownStrategy (StrategyType cpms)) logger invalidStrategyMessage],
               err = None\<rparr>))"

section \<open>The index grouper\<close>

text \<open>
  \<open>machineInfosByIndex\<close> of \<open>pkg/controllers/controlplanemachineset/updates.go\<close>: it
  makes an empty map and returns it; the conversion is a TODO comment.  That file also
  holds an earlier form of the dispatcher, which takes the flat list and groups it with
  this function, and empty bodies for both strategies; the dispatcher and the rolling
  update modelled above are the later ones, which take the map.
\<close>

definition machineInfosByIndex :: "MachineInfo list \<Rightarrow> indexedMachineInfos" where
  "machineInfosByIndex machineInfos = (let out = [] in out)"

section \<open>Reading off what a run did\<close>

text \<open>
  The provider calls of a run.  A run that panics has made none: the one panic of the
  engine is the nil dereference in \<open>deviseExistingSurge\<close>, which stands before the loops.
\<close>

definition callsMade :: "outcome option \<Rightarrow> call list" where
  "callsMade res = (case res of None \<Rightarrow> [] | Some out \<Rightarrow> calls out)"

section \<open>Concrete observations\<close>

text \<open>
  The inputs at which the theorems below are instantiated: machines by index, name,
  readiness, update flag and deletion timestamp, and a machine set by strategy and replicas.
\<close>

definition machine :: "int32 \<Rightarrow> string \<Rightarrow> bool \<Rightarrow> bool \<Rightarrow> int option \<Rightarrow> MachineInfo" where
  "machine i n rdy upd del =
     \<lparr>Index = i,
      MachineRef = \<lparr>ObjectMeta = \<lparr>Name = n, Namespace = ''openshift-machine-api'',
                                  DeletionTimestamp = del\<rparr>\<rparr>,
      Ready = rdy, NeedsUpdate = upd\<rparr>"

definition machineSet :: "string \<Rightarrow> int32 \<Rightarrow> ControlPlaneMachineSet" where
  "machineSet strategy replicas =
     \<lparr>StrategyType = strategy, Replicas = Some replicas, Conditions = []\<rparr>"

definition reconciler :: ControlPlaneMachineSetReconciler where
  "reconciler = \<lparr>ReconcilerNamespace = ''openshift-machine-api''\<rparr>"

definition alwaysSucceeds :: machineProvider where
  "alwaysSucceeds c = None"

text \<open>Scenario S4 of the spec: the replacement at index 0 is ready, the old machine is live.\<close>

definition replacementReady :: indexedMachineInfos where
  "replacementReady =
     [(0, [machine 0 ''master-0'' True True None, machine 0 ''master-new-0'' True False None]),
      (1, [machine 1 ''master-1'' True False None]),
      (2, [machine 2 ''master-2'' True False None])]"

text \<open>What the engine does on \<open>replacementReady\<close> with a provider that succeeds.\<close>

definition removedOldMachine :: outcome where
  "removedOldMachine =
     \<lparr>calls = [DeleteMachine (MachineRef (machine 0 ''master-0'' True True None))],
      logs = [LogInfo 2 [(''updateStrategy'', StringValue ''RollingUpdate''),
                         (''index'', IntValue 0),
                         (''namespace'', StringValue ''openshift-machine-api''),
                         (''name'', StringValue ''master-0'')] removingOldMachine],
      err = None\<rparr>"

text \<open>
  Scenario S5 of the spec with the indices numbered from 1 and the update at index 3:
  the old machine there already has a deletion timestamp and its replacement is ready.
\<close>

definition deletedAtSparseKey :: indexedMachineInfos where
  "deletedAtSparseKey =
     [(1, [machine 1 ''master-1'' True False None]),
      (2, [machine 2 ''master-2'' True False None]),
      (3, [machine 3 ''master-3'' True True (Some 1), machine 3 ''master-new-3'' True False None])]"

text \<open>Scenario S1 of the spec: index 1 has no machine.\<close>

definition missingIndex :: indexedMachineInfos where
  "missingIndex =
     [(0, [machine 0 ''master-0'' True False None]),
      (1, []),
      (2, [machine 2 ''master-2'' True False None])]"

text \<open>The outcome of a create that the provider accepts, at position \<open>idx\<close>.\<close>

definition createdAt :: "nat \<Rightarrow> outcome" where
  "createdAt idx =
     \<lparr>calls = [CreateMachine (of_nat idx)],
      logs = [LogInfo 2 [(''updateStrategy'', StringValue ''RollingUpdate''),
                         (''index'', IntValue (int idx)),
                         (''namespace'', StringValue ''openshift-machine-api''),
                         (''name'', StringValue ''<Unknown>'')] createdReplacement],
      err = None\<rparr>"

text \<open>
  Indices numbered from 1, three replicas; index 3 is in the middle of its update, so
  four machines are observed.
\<close>

definition surgedSparse :: indexedMachineInfos where
  "surgedSparse =
     [(1, [machine 1 ''master-1'' True False None]),
      (2, [machine 2 ''master-2'' True False None]),
      (3, [machine 3 ''master-3'' True True None, machine 3 ''master-new-3'' False False None])]"

text \<open>Indices numbered from 1, three replicas; index 2 has no machine.\<close>

definition sparseKeys :: indexedMachineInfos where
  "sparseKeys =
     [(1, [machine 1 ''master-1'' True False None]),
      (2, []),
      (3, [machine 3 ''master-3'' True False None])]"

text \<open>
  Three replicas and four machines: index 0 is outdated and has no replacement, index 1
  is outdated and its replacement is ready.
\<close>

definition blockedCreate :: indexedMachineInfos where
  "blockedCreate =
     [(0, [machine 0 ''master-0'' True True None]),
      (1, [machine 1 ''master-1'' True True None, machine 1 ''master-new-1'' True False None]),
      (2, [machine 2 ''master-2'' True False None])]"

section \<open>Properties of the actions and of the three loops\<close>

lemma createMachine_calls:
  "calls (fst (createMachine logger p idx maxSurge sc)) = [] \<or>
   calls (fst (createMachine logger p idx maxSurge sc)) = [CreateMachine (of_nat idx)]"
  by (simp add: createMachine_def Let_def split: option.split)

lemma createMachine_blocked:
  "\<not> sc < maxSurge \<Longrightarrow>
   fst (createMachine logger p idx maxSurge sc) = \<lparr>calls = [], logs = [], err = None\<rparr>"
  by (simp add: createMachine_def)

lemma deleteMachine_calls:
  "calls (deleteMachine logger p om ns idx) = [DeleteMachine (MachineRef om)]"
  by (simp add: deleteMachine_def Let_def split: option.split)

lemma deleteMachine_logs:
  "e \<in> set (logs (deleteMachine logger p om ns idx)) \<Longrightarrow> entryValues e = logger"
  by (auto simp: deleteMachine_def Let_def split: option.splits)

lemma deleteMachine_logs_nonempty:
  "logs (deleteMachine logger p om ns idx) \<noteq> []"
  by (simp add: deleteMachine_def Let_def split: option.split)

lemma emptyIndexLoop_calls:
  "emptyIndexLoop r logger p maxSurge sc idx xs = Some out \<Longrightarrow>
   calls out = [] \<or> (\<exists>k. calls out = [CreateMachine k])"
proof (induction xs arbitrary: idx)
  case Nil
  then show ?case by simp
next
  case (Cons machines rest)
  show ?case
  proof (cases "empty machines")
    case True
    with Cons.prems have "out = fst (createMachine
        (withValues logger [(''index'', IntValue (int idx)),
               (''namespace'', StringValue (ReconcilerNamespace r)),
               (''name'', StringValue ''<Unknown>'')]) p idx maxSurge sc)"
      by (simp add: Let_def)
    then show ?thesis using createMachine_calls by metis
  next
    case False
    with Cons.prems Cons.IH show ?thesis by simp
  qed
qed

lemma pendingIndexLoop_calls:
  "pendingIndexLoop r logger idx xs = Some out \<Longrightarrow> calls out = []"
  by (induction xs arbitrary: idx) (auto simp: Let_def split: if_splits)

lemma createMachine_length:
  "length (calls (fst (createMachine logger p idx maxSurge sc))) \<le> Suc 0"
  using createMachine_calls [of logger p idx maxSurge sc] by auto

lemma createMachine_no_delete:
  "DeleteMachine ref \<notin> set (calls (fst (createMachine logger p idx maxSurge sc)))"
  using createMachine_calls [of logger p idx maxSurge sc] by auto

lemma needUpdateLoop_calls:
  "needUpdateLoop r logger p maxSurge sc idx xs = Some out \<Longrightarrow> length (calls out) \<le> 1"
proof (induction xs arbitrary: idx)
  case Nil
  then show ?case by simp
next
  case (Cons machines rest)
  show ?case
  proof (cases "hasAny (needUpdateMachines machines)")
    case False
    with Cons.prems Cons.IH show ?thesis by simp
  next
    case True
    with Cons.prems show ?thesis
      by (auto simp: Let_def deleteMachine_calls createMachine_length split: if_splits)
  qed
qed

lemma needUpdateLoop_delete:
  "needUpdateLoop r logger p maxSurge sc idx xs = Some out \<Longrightarrow>
   DeleteMachine ref \<in> set (calls out) \<Longrightarrow>
   \<exists>i<length xs.
     hasAny (needUpdateMachines (xs ! i)) \<and>
     ref = MachineRef (hd (needUpdateMachines (xs ! i))) \<and>
     \<not> isDeletedMachine (hd (needUpdateMachines (xs ! i))) \<and>
     hasAny (updatedMachines (xs ! i)) \<and>
     logs out \<noteq> [] \<and>
     (\<forall>e\<in>set (logs out). (''index'', IntValue (int (idx + i))) \<in> set (entryValues e))"
proof (induction xs arbitrary: idx)
  case Nil
  then show ?case by simp
next
  case (Cons machines rest)
  show ?case
  proof (cases "hasAny (needUpdateMachines machines)")
    case False
    with Cons.prems have "needUpdateLoop r logger p maxSurge sc (Suc idx) rest = Some out"
      by simp
    from Cons.IH [OF this Cons.prems(2)] obtain i where i: "i < length rest"
      "hasAny (needUpdateMachines (rest ! i))"
      "ref = MachineRef (hd (needUpdateMachines (rest ! i)))"
      "\<not> isDeletedMachine (hd (needUpdateMachines (rest ! i)))"
      "hasAny (updatedMachines (rest ! i))"
      "logs out \<noteq> []"
      "\<forall>e\<in>set (logs out). (''index'', IntValue (int (Suc idx + i))) \<in> set (entryValues e)"
      by blast
    then have "Suc i < length (machines # rest)" by simp
    moreover from i have "\<forall>e\<in>set (logs out). (''index'', IntValue (int (idx + Suc i))) \<in> set (entryValues e)"
      by simp
    ultimately show ?thesis using i(2-6) by (intro exI [of _ "Suc i"]) simp
  next
    case True
    with Cons.prems have "hasAny (updatedMachines machines) \<and>
        \<not> isDeletedMachine (hd (needUpdateMachines machines)) \<and>
        ref = MachineRef (hd (needUpdateMachines machines)) \<and>
        logs out \<noteq> [] \<and>
        (\<forall>e\<in>set (logs out). (''index'', IntValue (int idx)) \<in> set (entryValues e))"
      by (auto simp: Let_def deleteMachine_calls createMachine_no_delete withValues_def
                     deleteMachine_logs_nonempty
               dest!: deleteMachine_logs split: if_splits)
    with True show ?thesis by (intro exI [of _ 0]) simp
  qed
qed

lemma length_sortMachineInfos:
  "length (sortMachineInfos indexed) = length (mapKeys indexed)"
  by (simp add: sortMachineInfos_def Let_def)

lemma nth_sortMachineInfos:
  "i < length (mapKeys indexed) \<Longrightarrow> sortMachineInfos indexed ! i = lookup indexed (of_nat i)"
  by (simp add: sortMachineInfos_def Let_def)

lemma rolling_delete_target:
  assumes "reconcileMachineRollingUpdate r logger cpms p indexed = Some out"
    and "DeleteMachine ref \<in> set (calls out)"
  shows "\<exists>i<length (mapKeys indexed).
     hasAny (needUpdateMachines (lookup indexed (of_nat i))) \<and>
     ref = MachineRef (hd (needUpdateMachines (lookup indexed (of_nat i)))) \<and>
     \<not> isDeletedMachine (hd (needUpdateMachines (lookup indexed (of_nat i)))) \<and>
     hasAny (updatedMachines (lookup indexed (of_nat i))) \<and>
     logs out \<noteq> [] \<and>
     (\<forall>e\<in>set (logs out). (''index'', IntValue (int i)) \<in> set (entryValues e))"
proof -
  let ?l = "withValues logger [(''updateStrategy'', StringValue (StrategyType cpms))]"
  let ?ms = "sortMachineInfos indexed"
  from assms(1) obtain sc where sc: "deviseExistingSurge cpms ?ms = Some sc"
    by (auto simp: reconcileMachineRollingUpdate_def Let_def split: option.splits)
  have "needUpdateLoop r ?l p 1 sc 0 ?ms = Some out"
  proof (cases "emptyIndexLoop r ?l p 1 sc 0 ?ms")
    case (Some res)
    with assms(1) sc have "res = out" by (simp add: reconcileMachineRollingUpdate_def Let_def)
    with Some assms(2) show ?thesis using emptyIndexLoop_calls by fastforce
  next
    case eNone: None
    show ?thesis
    proof (cases "pendingIndexLoop r ?l 0 ?ms")
      case (Some res)
      with assms(1) sc eNone have "res = out" by (simp add: reconcileMachineRollingUpdate_def Let_def)
      with Some assms(2) show ?thesis using pendingIndexLoop_calls by fastforce
    next
      case pNone: None
      show ?thesis
      proof (cases "needUpdateLoop r ?l p 1 sc 0 ?ms")
        case (Some res)
        with assms(1) sc eNone pNone show ?thesis by (simp add: reconcileMachineRollingUpdate_def Let_def)
      next
        case None
        with assms sc eNone pNone show ?thesis by (auto simp: reconcileMachineRollingUpdate_def Let_def)
      qed
    qed
  qed
  from needUpdateLoop_delete [OF this assms(2)] show ?thesis
    by (auto simp: length_sortMachineInfos nth_sortMachineInfos)
qed

lemma rolling_calls_length:
  "length (callsMade (reconcileMachineRollingUpdate r logger cpms p indexed)) \<le> 1"
proof (cases "reconcileMachineRollingUpdate r logger cpms p indexed")
  case None
  then show ?thesis by (simp add: callsMade_def)
next
  case (Some out)
  let ?l = "withValues logger [(''updateStrategy'', StringValue (StrategyType cpms))]"
  let ?ms = "sortMachineInfos indexed"
  from Some obtain sc where sc: "deviseExistingSurge cpms ?ms = Some sc"
    by (auto simp: reconcileMachineRollingUpdate_def Let_def split: option.splits)
  have "length (calls out) \<le> 1"
  proof (cases "emptyIndexLoop r ?l p 1 sc 0 ?ms")
    case e: (Some res)
    with Some sc have "res = out" by (simp add: reconcileMachineRollingUpdate_def Let_def)
    with e show ?thesis using emptyIndexLoop_calls by fastforce
  next
    case eNone: None
    show ?thesis
    proof (cases "pendingIndexLoop r ?l 0 ?ms")
      case pe: (Some res)
      with Some sc eNone have "res = out" by (simp add: reconcileMachineRollingUpdate_def Let_def)
      with pe show ?thesis using pendingIndexLoop_calls by fastforce
    next
      case pNone: None
      show ?thesis
      proof (cases "needUpdateLoop r ?l p 1 sc 0 ?ms")
        case n: (Some res)
        with Some sc eNone pNone have "res = out"
          by (simp add: reconcileMachineRollingUpdate_def Let_def)
        with n show ?thesis using needUpdateLoop_calls by blast
      next
        case None
        with Some sc eNone pNone show ?thesis
          by (auto simp: reconcileMachineRollingUpdate_def Let_def)
      qed
    qed
  qed
  with Some show ?thesis by (simp add: callsMade_def)
qed

lemma updates_calls:
  "callsMade (map_option snd (reconcileMachineUpdates r logger cpms p indexed)) =
     (if StrategyType cpms = RollingUpdate
      then callsMade (reconcileMachineRollingUpdate r logger cpms p indexed) else [])"
  by (cases "reconcileMachineRollingUpdate r logger cpms p indexed")
     (simp_all add: reconcileMachineUpdates_def reconcileMachineOnDeleteUpdate_def callsMade_def)

lemma hasAny_hd_in_filter:
  "hasAny (filter P xs) \<Longrightarrow> hd (filter P xs) \<in> set xs \<and> P (hd (filter P xs))"
proof -
  assume "hasAny (filter P xs)"
  then have "filter P xs \<noteq> []" by (auto simp: hasAny_def)
  then have "hd (filter P xs) \<in> set (filter P xs)" by (rule hd_in_set)
  then show ?thesis by simp
qed

section \<open>Single action per invocation\<close>

text \<open>
  Claim C1.  Whatever the strategy, the replica count, the provider and the indexed
  observation, one invocation of the rolling update, and one invocation of the
  dispatcher \<open>reconcileMachineUpdates\<close> above it, makes at most one provider call in
  all: at most one of \<open>CreateMachine\<close> and \<open>DeleteMachine\<close>, at most once.  Every loop
  returns at its first match.
\<close>

theorem single_action_per_invocation:
  "length (callsMade (reconcileMachineRollingUpdate r logger cpms p indexed)) \<le> 1 \<and>
   length (callsMade (map_option snd (reconcileMachineUpdates r logger cpms p indexed))) \<le> 1"
  using rolling_calls_length [of r logger cpms p indexed]
  by (simp add: updates_calls)

text \<open>The same at scenario S4, where the one call is the delete of the old machine.\<close>

theorem single_action_per_invocation_witness:
  "length (callsMade (reconcileMachineRollingUpdate reconciler [] (machineSet RollingUpdate 3)
             alwaysSucceeds replacementReady)) \<le> 1 \<and>
   length (callsMade (map_option snd (reconcileMachineUpdates reconciler [] (machineSet RollingUpdate 3)
             alwaysSucceeds replacementReady))) \<le> 1"
  using single_action_per_invocation
    [of reconciler "[]" "machineSet RollingUpdate 3" alwaysSucceeds replacementReady]
  by simp

section \<open>Deletes\<close>

text \<open>
  Claim C2.  If the rolling update dispatches \<open>DeleteMachine\<close> for a reference, then
  there is an index \<open>i\<close> among the positions the engine walks such that the deleted
  machine is one of the machines observed at index \<open>i\<close>, the log line of the action
  carries \<open>index = i\<close>, and the observation at index \<open>i\<close> holds a machine that is
  ready and needs no update.  So an outdated machine is never deleted while its
  replacement is missing or still pending.
\<close>

theorem delete_only_with_updated_replacement:
  assumes "reconcileMachineRollingUpdate r logger cpms p indexed = Some out"
    and "DeleteMachine ref \<in> set (calls out)"
  shows "\<exists>i<length (mapKeys indexed).
           (\<exists>mi\<in>set (lookup indexed (of_nat i)). MachineRef mi = ref) \<and>
           logs out \<noteq> [] \<and>
           (\<forall>e\<in>set (logs out). (''index'', IntValue (int i)) \<in> set (entryValues e)) \<and>
           (\<exists>u\<in>set (lookup indexed (of_nat i)). Ready u \<and> \<not> NeedsUpdate u)"
proof -
  from rolling_delete_target [OF assms] obtain i where i: "i < length (mapKeys indexed)"
    "hasAny (needUpdateMachines (lookup indexed (of_nat i)))"
    "ref = MachineRef (hd (needUpdateMachines (lookup indexed (of_nat i))))"
    "hasAny (updatedMachines (lookup indexed (of_nat i)))"
    "logs out \<noteq> []"
    "\<forall>e\<in>set (logs out). (''index'', IntValue (int i)) \<in> set (entryValues e)"
    by blast
  let ?M = "lookup indexed (of_nat i)"
  from i(2) have "hd (needUpdateMachines ?M) \<in> set ?M"
    unfolding needUpdateMachines_def by (rule hasAny_hd_in_filter [THEN conjunct1])
  with i(3) have a: "\<exists>mi\<in>set ?M. MachineRef mi = ref" by blast
  from i(4) have "hd (updatedMachines ?M) \<in> set ?M \<and>
      Ready (hd (updatedMachines ?M)) \<and> \<not> NeedsUpdate (hd (updatedMachines ?M))"
    unfolding updatedMachines_def by (rule hasAny_hd_in_filter)
  then have b: "\<exists>u\<in>set ?M. Ready u \<and> \<not> NeedsUpdate u" by blast
  from i(1) a i(5) i(6) b show ?thesis by blast
qed

theorem delete_only_with_updated_replacement_witness:
  "reconcileMachineRollingUpdate reconciler [] (machineSet RollingUpdate 3) alwaysSucceeds
     replacementReady = Some removedOldMachine \<and>
   DeleteMachine (MachineRef (machine 0 ''master-0'' True True None)) \<in> set (calls removedOldMachine) \<and>
   (\<exists>i<length (mapKeys replacementReady).
      (\<exists>mi\<in>set (lookup replacementReady (of_nat i)).
         MachineRef mi = MachineRef (machine 0 ''master-0'' True True None)) \<and>
      logs removedOldMachine \<noteq> [] \<and>
      (\<forall>e\<in>set (logs removedOldMachine). (''index'', IntValue (int i)) \<in> set (entryValues e)) \<and>
      (\<exists>u\<in>set (lookup replacementReady (of_nat i)). Ready u \<and> \<not> NeedsUpdate u))"
proof -
  have run: "reconcileMachineRollingUpdate reconciler [] (machineSet RollingUpdate 3) alwaysSucceeds
     replacementReady = Some removedOldMachine"
    by code_simp
  have del: "DeleteMachine (MachineRef (machine 0 ''master-0'' True True None))
      \<in> set (calls removedOldMachine)"
    by (simp add: removedOldMachine_def)
  from delete_only_with_updated_replacement [OF run del] run del show ?thesis
    by blast
qed

text \<open>
  Claim C10.  Every \<open>DeleteMachine\<close> call of the rolling update targets a machine of
  the observation that needs an update and whose deletion timestamp is nil: the engine
  deletes neither an updated nor a pending machine, and it does not delete again a
  machine that is already marked for deletion.
\<close>

theorem delete_targets_live_outdated_machine:
  assumes "reconcileMachineRollingUpdate r logger cpms p indexed = Some out"
    and "DeleteMachine ref \<in> set (calls out)"
  shows "\<exists>i<length (mapKeys indexed). \<exists>mi\<in>set (lookup indexed (of_nat i)).
           MachineRef mi = ref \<and> NeedsUpdate mi \<and> DeletionTimestamp (ObjectMeta ref) = None"
proof -
  from rolling_delete_target [OF assms] obtain i where i: "i < length (mapKeys indexed)"
    "hasAny (needUpdateMachines (lookup indexed (of_nat i)))"
    "ref = MachineRef (hd (needUpdateMachines (lookup indexed (of_nat i))))"
    "\<not> isDeletedMachine (hd (needUpdateMachines (lookup indexed (of_nat i))))"
    by blast
  let ?M = "lookup indexed (of_nat i)"
  let ?mi = "hd (needUpdateMachines ?M)"
  from i(2) have "?mi \<in> set ?M \<and> NeedsUpdate ?mi"
    unfolding needUpdateMachines_def by (rule hasAny_hd_in_filter)
  moreover from i(3,4) have "DeletionTimestamp (ObjectMeta ref) = None"
    by (simp add: isDeletedMachine_def)
  ultimately show ?thesis using i(1,3) by blast
qed

theorem delete_targets_live_outdated_machine_witness:
  "reconcileMachineRollingUpdate reconciler [] (machineSet RollingUpdate 3) alwaysSucceeds
     replacementReady = Some removedOldMachine \<and>
   DeleteMachine (MachineRef (machine 0 ''master-0'' True True None)) \<in> set (calls removedOldMachine) \<and>
   (\<exists>i<length (mapKeys replacementReady). \<exists>mi\<in>set (lookup replacementReady (of_nat i)).
      MachineRef mi = MachineRef (machine 0 ''master-0'' True True None) \<and> NeedsUpdate mi \<and>
      DeletionTimestamp (ObjectMeta (MachineRef (machine 0 ''master-0'' True True None))) = None)"
proof -
  have run: "reconcileMachineRollingUpdate reconciler [] (machineSet RollingUpdate 3) alwaysSucceeds
     replacementReady = Some removedOldMachine"
    by code_simp
  have del: "DeleteMachine (MachineRef (machine 0 ''master-0'' True True None))
      \<in> set (calls removedOldMachine)"
    by (simp add: removedOldMachine_def)
  from delete_targets_live_outdated_machine [OF run del] run del show ?thesis
    by blast
qed

section \<open>Waiting for a deleted machine to go\<close>

lemma emptyIndexLoop_None:
  "\<forall>x\<in>set xs. \<not> empty x \<Longrightarrow> emptyIndexLoop r logger p maxSurge sc idx xs = None"
  by (induction xs arbitrary: idx) simp_all

lemma pendingIndexLoop_None:
  "\<forall>x\<in>set xs. \<not> (empty (readyMachines x) \<and> hasAny (pendingMachines x)) \<Longrightarrow>
   pendingIndexLoop r logger idx xs = None"
  by (induction xs arbitrary: idx) (simp_all add: Let_def)

lemma needUpdateLoop_waitingForRemoved:
  "i < length xs \<Longrightarrow>
   \<forall>j<i. \<not> hasAny (needUpdateMachines (xs ! j)) \<Longrightarrow>
   hasAny (needUpdateMachines (xs ! i)) \<Longrightarrow>
   isDeletedMachine (hd (needUpdateMachines (xs ! i))) \<Longrightarrow>
   hasAny (updatedMachines (xs ! i)) \<Longrightarrow>
   \<exists>l. needUpdateLoop r logger p maxSurge sc idx xs =
     Some \<lparr>calls = [], logs = [LogInfo 2 l waitingForRemoved], err = None\<rparr>"
proof (induction xs arbitrary: idx i)
  case Nil
  then show ?case by simp
next
  case (Cons machines rest)
  show ?case
  proof (cases i)
    case 0
    with Cons.prems show ?thesis by (simp add: Let_def)
  next
    case (Suc k)
    with Cons.prems have k: "k < length rest"
      "\<forall>j<k. \<not> hasAny (needUpdateMachines (rest ! j))"
      "hasAny (needUpdateMachines (rest ! k))"
      "isDeletedMachine (hd (needUpdateMachines (rest ! k)))"
      "hasAny (updatedMachines (rest ! k))"
      by auto
    from Cons.prems(2) Suc have "\<not> hasAny (needUpdateMachines machines)"
      by auto
    with Cons.IH [OF k, of "Suc idx"] show ?thesis by simp
  qed
qed

text \<open>
  On the positions the engine walks, read as map keys: let the replicas be set, let no
  position be empty and none be without a ready machine while holding a pending one.  If
  \<open>i\<close> is the lowest position with an outdated machine, the first outdated machine
  there carries a deletion timestamp, and an updated machine exists at \<open>i\<close>, then the
  rolling update returns with no provider call, a nil error and the one log line
  \<open>Waiting for machine to be removed\<close>.  The positions are \<open>0 .. len(keys) - 1\<close>, so
  this speaks of the whole observation only when its keys are exactly these.
\<close>

lemma waits_for_removal_on_walked_positions:
  assumes "Replicas cpms = Some replicas"
    and "\<forall>j<length (mapKeys indexed). \<not> empty (lookup indexed (of_nat j))"
    and "\<forall>j<length (mapKeys indexed).
           \<not> (empty (readyMachines (lookup indexed (of_nat j))) \<and>
              hasAny (pendingMachines (lookup indexed (of_nat j))))"
    and "i < length (mapKeys indexed)"
    and "\<forall>j<i. \<not> hasAny (needUpdateMachines (lookup indexed (of_nat j)))"
    and "hasAny (needUpdateMachines (lookup indexed (of_nat i)))"
    and "isDeletedMachine (hd (needUpdateMachines (lookup indexed (of_nat i))))"
    and "hasAny (updatedMachines (lookup indexed (of_nat i)))"
  shows "\<exists>out. reconcileMachineRollingUpdate r logger cpms p indexed = Some out \<and>
           calls out = [] \<and> err out = None \<and>
           map entryMessage (logs out) = [waitingForRemoved]"
proof -
  let ?l = "withValues logger [(''updateStrategy'', StringValue (StrategyType cpms))]"
  let ?ms = "sortMachineInfos indexed"
  from assms(1) obtain sc where sc: "deviseExistingSurge cpms ?ms = Some sc"
    by (simp add: deviseExistingSurge_def Let_def)
  have nth: "?ms ! j = lookup indexed (of_nat j)" if "j < length (mapKeys indexed)" for j
    using that by (rule nth_sortMachineInfos)
  have len: "length ?ms = length (mapKeys indexed)" by (rule length_sortMachineInfos)
  have "\<forall>x\<in>set ?ms. \<not> empty x"
    using assms(2) nth len by (metis in_set_conv_nth)
  then have e: "emptyIndexLoop r ?l p 1 sc 0 ?ms = None" by (rule emptyIndexLoop_None)
  have "\<forall>x\<in>set ?ms. \<not> (empty (readyMachines x) \<and> hasAny (pendingMachines x))"
    using assms(3) nth len by (metis in_set_conv_nth)
  then have pe: "pendingIndexLoop r ?l 0 ?ms = None" by (rule pendingIndexLoop_None)
  have "i < length ?ms" using assms(4) len by simp
  moreover have "\<forall>j<i. \<not> hasAny (needUpdateMachines (?ms ! j))"
    using assms(4,5) nth by simp
  moreover have "hasAny (needUpdateMachines (?ms ! i))"
    "isDeletedMachine (hd (needUpdateMachines (?ms ! i)))"
    "hasAny (updatedMachines (?ms ! i))"
    using assms(4,6,7,8) nth by simp_all
  ultimately obtain l where "needUpdateLoop r ?l p 1 sc 0 ?ms =
      Some \<lparr>calls = [], logs = [LogInfo 2 l waitingForRemoved], err = None\<rparr>"
    using needUpdateLoop_waitingForRemoved by blast
  with sc e pe show ?thesis
    by (simp add: reconcileMachineRollingUpdate_def Let_def)
qed

text \<open>
  Claim C9, at an input where the code departs from it.  On \<open>deletedAtSparseKey\<close> no
  key is empty, none is without a ready machine, the lowest outdated key is 3, its first
  outdated machine carries a deletion timestamp and its replacement is ready: the engine
  should wait for the removal and call nothing.  The slice of \<open>sortMachineInfos\<close> is
  the map read at 0, 1, 2, so key 3 is never visited, the absent key 0 looks like an
  empty index, the surge is counted as \<open>-1\<close>, and \<open>CreateMachine 0\<close> is called.
\<close>

theorem create_instead_of_waiting_on_sparse_keys:
  "mapKeys deletedAtSparseKey = [1, 2, 3] \<and>
   list_all (\<lambda>k. \<not> empty (lookup deletedAtSparseKey k)) [1, 2, 3] \<and>
   list_all (\<lambda>k. \<not> (empty (readyMachines (lookup deletedAtSparseKey k)) \<and>
                      hasAny (pendingMachines (lookup deletedAtSparseKey k)))) [1, 2, 3] \<and>
   \<not> hasAny (needUpdateMachines (lookup deletedAtSparseKey 1)) \<and>
   \<not> hasAny (needUpdateMachines (lookup deletedAtSparseKey 2)) \<and>
   hasAny (needUpdateMachines (lookup deletedAtSparseKey 3)) \<and>
   isDeletedMachine (hd (needUpdateMachines (lookup deletedAtSparseKey 3))) \<and>
   hasAny (updatedMachines (lookup deletedAtSparseKey 3)) \<and>
   sortMachineInfos deletedAtSparseKey =
     [[], [machine 1 ''master-1'' True False None], [machine 2 ''master-2'' True False None]] \<and>
   reconcileMachineRollingUpdate reconciler [] (machineSet RollingUpdate 3) alwaysSucceeds
     deletedAtSparseKey = Some (createdAt 0)"
  by code_simp

section \<open>Invalid strategies\<close>

lemma SetStatusCondition_sets:
  "\<exists>c\<in>set (SetStatusCondition cs new).
     Type c = Type new \<and> Status c = Status new \<and> Reason c = Reason new \<and> Message c = Message new"
  by (induction cs) auto

text \<open>
  Claim C6.  With the strategy \<open>Recreate\<close>, or any value other than \<open>RollingUpdate\<close>
  and \<open>OnDelete\<close>, \<open>reconcileMachineUpdates\<close> returns with a nil error and without a
  provider call, and leaves on the machine set a condition of type \<open>Degraded\<close> with
  status \<open>True\<close>, reason \<open>InvalidStrategy\<close> and a message that begins with
  \<open>invalid value for spec.strategy.type\<close>.
\<close>

theorem invalid_strategy_sets_degraded:
  assumes "StrategyType cpms \<noteq> RollingUpdate" and "StrategyType cpms \<noteq> OnDelete"
  shows "\<exists>cpms' out. reconcileMachineUpdates r logger cpms p indexed = Some (cpms', out) \<and>
           calls out = [] \<and> err out = None \<and>
           (\<exists>c\<in>set (Conditions cpms').
              Type c = conditionDegraded \<and> Status c = ConditionTrue \<and>
              Reason c = reasonInvalidStrategy \<and> prefix invalidStrategyMessage (Message c))"
proof (cases "StrategyType cpms = Recreate")
  case True
  let ?new = "\<lparr>Type = conditionDegraded, Status = ConditionTrue,
                Reason = reasonInvalidStrategy,
                Message = invalidStrategyMessage @ '': '' @ errRecreateStrategyNotSupportedText\<rparr>"
  from SetStatusCondition_sets [of "Conditions cpms" ?new]
  obtain c where "c \<in> set (SetStatusCondition (Conditions cpms) ?new)"
    "Type c = conditionDegraded" "Status c = ConditionTrue" "Reason c = reasonInvalidStrategy"
    "Message c = invalidStrategyMessage @ '': '' @ errRecreateStrategyNotSupportedText"
    by auto
  with True assms show ?thesis
    by (auto simp: reconcileMachineUpdates_def)
next
  case False
  let ?new = "\<lparr>Type = conditionDegraded, Status = ConditionTrue,
                Reason = reasonInvalidStrategy,
                Message = invalidStrategyMessage @ '': '' @ errUnknownStrategyText @ '': ''
                          @ StrategyType cpms\<rparr>"
  from SetStatusCondition_sets [of "Conditions cpms" ?new]
  obtain c where "c \<in> set (SetStatusCondition (Conditions cpms) ?new)"
    "Type c = conditionDegraded" "Status c = ConditionTrue" "Reason c = reasonInvalidStrategy"
    "Message c = invalidStrategyMessage @ '': '' @ errUnknownStrategyText @ '': '' @ StrategyType cpms"
    by auto
  with False assms show ?thesis
    by (auto simp: reconcileMachineUpdates_def)
qed

theorem invalid_strategy_sets_degraded_witness:
  "StrategyType (machineSet Recreate 3) \<noteq> RollingUpdate \<and>
   StrategyType (machineSet Recreate 3) \<noteq> OnDelete \<and>
   (\<exists>cpms' out. reconcileMachineUpdates reconciler [] (machineSet Recreate 3) alwaysSucceeds
                   replacementReady = Some (cpms', out) \<and>
      calls out = [] \<and> err out = None \<and>
      (\<exists>c\<in>set (Conditions cpms').
         Type c = conditionDegraded \<and> Status c = ConditionTrue \<and>
         Reason c = reasonInvalidStrategy \<and> prefix invalidStrategyMessage (Message c)))"
proof -
  have h1: "StrategyType (machineSet Recreate 3) \<noteq> RollingUpdate"
    by (simp add: machineSet_def Recreate_def RollingUpdate_def)
  have h2: "StrategyType (machineSet Recreate 3) \<noteq> OnDelete"
    by (simp add: machineSet_def Recreate_def OnDelete_def)
  from invalid_strategy_sets_degraded [OF h1 h2] show ?thesis using h1 h2 by blast
qed

section \<open>The surge bound\<close>

text \<open>
  The surge test of \<open>createMachine\<close> works on the surge that \<open>deviseExistingSurge\<close> counts
  over the slice of \<open>sortMachineInfos\<close>: once that count has reached \<open>maxSurge\<close>, no
  loop creates a machine.
\<close>

lemma emptyIndexLoop_blocked:
  "\<not> sc < maxSurge \<Longrightarrow> emptyIndexLoop r logger p maxSurge sc idx xs = Some out \<Longrightarrow> calls out = []"
  by (induction xs arbitrary: idx) (auto simp: Let_def createMachine_blocked split: if_splits)

lemma needUpdateLoop_blocked:
  "\<not> sc < maxSurge \<Longrightarrow> needUpdateLoop r logger p maxSurge sc idx xs = Some out \<Longrightarrow>
   CreateMachine k \<notin> set (calls out)"
  by (induction xs arbitrary: idx)
     (auto simp: Let_def createMachine_blocked deleteMachine_calls split: if_splits)

lemma no_create_when_counted_surge_reached:
  assumes "deviseExistingSurge cpms (sortMachineInfos indexed) = Some sc" and "1 \<le> sc"
  shows "CreateMachine k \<notin> set (callsMade (reconcileMachineRollingUpdate r logger cpms p indexed))"
proof -
  let ?l = "withValues logger [(''updateStrategy'', StringValue (StrategyType cpms))]"
  let ?ms = "sortMachineInfos indexed"
  from assms(2) have b: "\<not> sc < 1" by simp
  show ?thesis
  proof (cases "emptyIndexLoop r ?l p 1 sc 0 ?ms")
    case (Some res)
    with assms(1) emptyIndexLoop_blocked [OF b Some] show ?thesis
      by (simp add: reconcileMachineRollingUpdate_def Let_def callsMade_def)
  next
    case eNone: None
    show ?thesis
    proof (cases "pendingIndexLoop r ?l 0 ?ms")
      case (Some res)
      with assms(1) eNone pendingIndexLoop_calls [OF Some] show ?thesis
        by (simp add: reconcileMachineRollingUpdate_def Let_def callsMade_def)
    next
      case pNone: None
      show ?thesis
      proof (cases "needUpdateLoop r ?l p 1 sc 0 ?ms")
        case (Some res)
        with assms(1) eNone pNone needUpdateLoop_blocked [OF b Some, of k] show ?thesis
          by (simp add: reconcileMachineRollingUpdate_def Let_def callsMade_def)
      next
        case None
        with assms(1) eNone pNone show ?thesis
          by (simp add: reconcileMachineRollingUpdate_def Let_def callsMade_def)
      qed
    qed
  qed
qed

text \<open>
  Claim C3, at an input where the code departs from it.  On \<open>surgedSparse\<close> four
  machines are observed for three replicas, so the surge is 1 and has reached
  \<open>maxSurge\<close>.  The slice of \<open>sortMachineInfos\<close> holds the map's values at the
  positions 0, 1, 2 and so misses the two machines at key 3: the surge is counted as
  \<open>-1\<close>, position 0 looks empty, and \<open>CreateMachine 0\<close> is called.
\<close>

theorem create_despite_surge_on_sparse_keys:
  "int (length (concat (map snd surgedSparse))) - sint (3 :: int32) = 1 \<and>
   sortMachineInfos surgedSparse =
     [[], [machine 1 ''master-1'' True False None], [machine 2 ''master-2'' True False None]] \<and>
   deviseExistingSurge (machineSet RollingUpdate 3) (sortMachineInfos surgedSparse) = Some (- 1) \<and>
   reconcileMachineRollingUpdate reconciler [] (machineSet RollingUpdate 3) alwaysSucceeds surgedSparse
     = Some (createdAt 0)"
  by code_simp

section \<open>A create that the surge blocks\<close>

text \<open>
  Claim C4, at an input where the code departs from it.  On \<open>blockedCreate\<close> the surge
  is 1.  Index 0 is outdated without a replacement, so the third loop reaches
  \<open>return createMachine(...)\<close>, which is blocked and returns at once: no call, no log
  line.  Index 1 holds a live outdated machine and a ready replacement, but the loop never
  gets there, and the delete is not dispatched.
\<close>

theorem blocked_create_ends_the_invocation:
  "int (length (concat (map snd blockedCreate))) - sint (3 :: int32) = 1 \<and>
   hasAny (needUpdateMachines (lookup blockedCreate 1)) \<and>
   \<not> isDeletedMachine (hd (needUpdateMachines (lookup blockedCreate 1))) \<and>
   hasAny (updatedMachines (lookup blockedCreate 1)) \<and>
   reconcileMachineRollingUpdate reconciler [] (machineSet RollingUpdate 3) alwaysSucceeds blockedCreate
     = Some \<lparr>calls = [], logs = [], err = None\<rparr>"
  by code_simp

section \<open>The order of the indices\<close>

text \<open>
  Claim C5, at an input where the code departs from it.  The keys of \<open>sparseKeys\<close> are
  1, 2, 3 and key 2 is the empty one.  The sorted keys are computed and then not used:
  the slice is the map read at 0, 1, 2, so key 3 is never visited, the absent key 0
  looks like an empty index, and the create goes to index 0 instead of index 2.
\<close>

theorem sortMachineInfos_reads_positions_not_keys:
  "sort (map sint (mapKeys sparseKeys)) = [1, 2, 3] \<and>
   sortMachineInfos sparseKeys = [[], [machine 1 ''master-1'' True False None], []] \<and>
   reconcileMachineRollingUpdate reconciler [] (machineSet RollingUpdate 3) alwaysSucceeds sparseKeys
     = Some (createdAt 0)"
  by code_simp

section \<open>The index grouper and the on-delete strategy\<close>

text \<open>
  Claim C7, at an input where the code departs from it.  \<open>machineInfosByIndex\<close> returns
  the empty map for every input, so a machine of the input is not found under its index.
\<close>

theorem machineInfosByIndex_returns_empty_map:
  "machineInfosByIndex machineInfos = [] \<and>
   lookup (machineInfosByIndex [machine 0 ''master-0'' True False None])
          (Index (machine 0 ''master-0'' True False None)) = []"
  by (simp add: machineInfosByIndex_def lookup_def)

text \<open>
  Claim C8, at an input where the code departs from it.  On \<open>missingIndex\<close>, where the
  rolling update creates a machine for index 1, \<open>reconcileMachineOnDeleteUpdate\<close>
  returns at once: no provider call under the strategy \<open>OnDelete\<close>.
\<close>

theorem onDelete_leaves_empty_index_unfilled:
  "reconcileMachineRollingUpdate reconciler [] (machineSet RollingUpdate 3) alwaysSucceeds missingIndex
     = Some (createdAt 1) \<and>
   reconcileMachineOnDeleteUpdate reconciler [] (machineSet OnDelete 3) alwaysSucceeds missingIndex
     = Some \<lparr>calls = [], logs = [], err = None\<rparr> \<and>
   reconcileMachineUpdates reconciler [] (machineSet OnDelete 3) alwaysSucceeds missingIndex
     = Some (machineSet OnDelete 3, \<lparr>calls = [], logs = [], err = None\<rparr>)"
  by code_simp

end
